theory Spec2Isabelle
  imports Complex_Main
begin

section \<open>Data model\<close>

text \<open>
  The pipeline of \<^verbatim>\<open>stock_prediction/models/model_predictor.py\<close> works on a pandas
  DataFrame with one row per trading day. A frame is modelled as the list of its rows in
  positional order; after \<^verbatim>\<open>reset_index(drop=True)\<close> the index label of a row is its
  position \<open>0, 1, 2, \<dots>\<close> in that list.

  The type of the \<^verbatim>\<open>date\<close> column is fixed by the data-fetching layer, which is not part
  of the modelled code; it is the type parameter \<open>'d\<close>, and all that is used of it is the
  linear order \<^verbatim>\<open>sort_values\<close> sorts by.

  A frame as it comes from the data layer has the columns \<^verbatim>\<open>date\<close>, \<^verbatim>\<open>close\<close> and the
  numeric indicator columns, addressed by name; \<open>None\<close> is pandas' missing value (NaN).
\<close>

record 'd stock_row =
  date :: 'd
  close :: real
  indicators :: "string \<rightharpoonup> real"

text \<open>
  \<^verbatim>\<open>evaluate_model\<close> adds the two columns \<^verbatim>\<open>predicted_target\<close> and
  \<^verbatim>\<open>predicted_probability\<close>. Both are float columns in the source: the label is one of
  the numbers \<open>0\<close> (minimum), \<open>1\<close> (maximum) and \<open>-1\<close> (neutral), and the code compares
  it with \<^verbatim>\<open>== 0\<close> and \<^verbatim>\<open>== 1\<close>. Floats are modelled as reals; the code only compares
  them, and on finite floats the comparisons agree with the order of the reals.
\<close>

record 'd row = "'d stock_row" +
  predicted_target :: real
  predicted_probability :: real

abbreviation (input) minimum :: real where "minimum \<equiv> 0"
abbreviation (input) maximum :: real where "maximum \<equiv> 1"
abbreviation (input) neutral :: real where "neutral \<equiv> - 1"

text \<open>
  The \<^verbatim>\<open>params\<close> dictionary of the constructor: every key may be absent. The trained
  classifier and the scaler are objects of an external library; they are represented by
  what the code calls on them. \<open>model\<close> gives, for one scaled feature vector, column 1 of
  \<^verbatim>\<open>predict_proba\<close>; \<open>scaler\<close> gives, for the feature matrix it is fitted on, the
  transformation \<^verbatim>\<open>fit_transform\<close> applies to each of its rows.
\<close>

record params =
  params_outputsize :: "int option"
  params_min_max_order :: "int option"
  params_min_threshold :: "real option"
  params_max_threshold :: "real option"
  params_window_size :: "int option"

definition get :: "'a option \<Rightarrow> 'a \<Rightarrow> 'a" where
  "get entry dflt = (case entry of None \<Rightarrow> dflt | Some v \<Rightarrow> v)"

record ModelPredictor =
  model :: "real list \<Rightarrow> real"
  scaler :: "real list list \<Rightarrow> real list \<Rightarrow> real list"
  testing_symbols :: "string list"
  technical_indicators :: "string list"
  outputsize :: int
  min_max_order :: int
  min_threshold :: real
  max_threshold :: real
  window_size :: int

section \<open>The constructor\<close>

text \<open>
  \<^verbatim>\<open>ModelPredictor.__init__\<close> stores its arguments and reads the five parameters with
  \<^verbatim>\<open>params.get(key, default)\<close>. It has no check and no \<^verbatim>\<open>raise\<close>.
\<close>

definition ModelPredictor_init ::
  "(real list \<Rightarrow> real) \<Rightarrow> (real list list \<Rightarrow> real list \<Rightarrow> real list) \<Rightarrow> string list \<Rightarrow>
   string list \<Rightarrow> params \<Rightarrow> ModelPredictor" where
  "ModelPredictor_init model0 scaler0 testing_symbols0 technical_indicators0 ps =
     \<lparr> model = model0,
       scaler = scaler0,
       testing_symbols = testing_symbols0,
       technical_indicators = technical_indicators0,
       outputsize = get (params_outputsize ps) 5000,
       min_max_order = get (params_min_max_order ps) 5,
       min_threshold = get (params_min_threshold ps) 0.00001,
       max_threshold = get (params_max_threshold ps) 0.99999,
       window_size = get (params_window_size ps) 5 \<rparr>"

section \<open>The signal generator: \<^verbatim>\<open>evaluate_model\<close>\<close>

text \<open>
  \<^verbatim>\<open>df.dropna(subset=cols)\<close> keeps the rows that have a value in every column of \<open>cols\<close>.
\<close>

definition dropna :: "string list \<Rightarrow> ('d, 'z) stock_row_scheme list \<Rightarrow> ('d, 'z) stock_row_scheme list" where
  "dropna cols df = filter (\<lambda>r. list_all (\<lambda>c. indicators r c \<noteq> None) cols) df"

text \<open>
  The numpy assignment \<^verbatim>\<open>y[mask] = v\<close> on arrays of one length: every position where
  the mask holds is overwritten by \<open>v\<close>.
\<close>

definition masked_assign :: "bool list \<Rightarrow> real \<Rightarrow> real list \<Rightarrow> real list" where
  "masked_assign cond v y = map (\<lambda>(c, old). if c then v else old) (zip cond y)"

text \<open>
  Lines 42 to 45 of the source: all labels start as \<open>-1\<close>, then the positions below
  \<open>min_threshold\<close> are set to \<open>0\<close>, then the positions above \<open>max_threshold\<close> are set to
  \<open>1\<close>, in this order.
\<close>

definition y_pred_of :: "real \<Rightarrow> real \<Rightarrow> real list \<Rightarrow> real list" where
  "y_pred_of min_thr max_thr y_pred_proba =
     (let y_pred = map (\<lambda>_. - 1 * 1) y_pred_proba;
          y_pred = masked_assign (map (\<lambda>p. p < min_thr) y_pred_proba) 0 y_pred;
          y_pred = masked_assign (map (\<lambda>p. p > max_thr) y_pred_proba) 1 y_pred
      in y_pred)"

text \<open>
  \<^verbatim>\<open>evaluate_model\<close>: the rows with a missing indicator are dropped, the remaining
  feature matrix is scaled and classified, and the labels and probabilities become two new
  columns. The model covers the runs in which the scaler and the classifier return, the
  classifier gives a number and not NaN for every row, and the index labels of the frame
  are unique: then the left merge on the index followed by \<^verbatim>\<open>dropna\<close> on the two new
  columns keeps exactly the rows of \<^verbatim>\<open>df_clean\<close>, each with its own prediction. In
  every run a returned row carries the label and the probability computed for one row of
  \<^verbatim>\<open>df_clean\<close>; the properties below speak of the returned rows only.
\<close>

definition with_prediction :: "'d stock_row \<Rightarrow> real \<Rightarrow> real \<Rightarrow> 'd row" where
  "with_prediction r target proba =
     \<lparr> date = date r, close = close r, indicators = indicators r,
       predicted_target = target, predicted_probability = proba \<rparr>"

definition evaluate_model :: "ModelPredictor \<Rightarrow> 'd stock_row list \<Rightarrow> 'd row list" where
  "evaluate_model self df =
     (let df_clean = dropna (technical_indicators self) df;
          X = map (\<lambda>r. map (\<lambda>c. the (indicators r c)) (technical_indicators self)) df_clean;
          X = map (scaler self X) X;
          y_pred_proba = map (model self) X;
          y_pred = y_pred_of (min_threshold self) (max_threshold self) y_pred_proba
      in map (\<lambda>(r, target, proba). with_prediction r target proba)
           (zip df_clean (zip y_pred y_pred_proba)))"

section \<open>The temporal filter: \<^verbatim>\<open>filter_predictions\<close>\<close>

text \<open>
  \<^verbatim>\<open>df.sort_values(by='date').reset_index(drop=True)\<close>: the rows in ascending order of
  their date, renumbered from \<open>0\<close>. In the model rows of equal date keep their relative
  order. The sort the source calls is not stable, so the order it gives to rows of equal
  date is not fixed by the source, and the model is the code only for frames with pairwise
  distinct dates, the rows being unique per date. For such frames every sort by date gives
  the result of the model (\<open>sort_values_by_date_unique\<close>). The properties below that
  depend on the order of rows of equal date assume distinct dates.
\<close>

definition sort_values_by_date :: "('d::linorder, 'z) row_scheme list \<Rightarrow> ('d, 'z) row_scheme list" where
  "sort_values_by_date df = sort_key date df"

text \<open>
  The loop \<^verbatim>\<open>for idx, row in df.iterrows()\<close>, as a recursion over the rows still to be
  visited. \<open>idx\<close> is the index of the row at the head; \<open>last_minima_idx\<close> and
  \<open>last_maxima_idx\<close> are the loop's two variables. The assignment
  \<^verbatim>\<open>df.at[idx, 'predicted_target'] = -1\<close> writes the row just read, which the loop never
  reads again, so the function returns the rows as they stand after the loop.
\<close>

fun iterrows_loop ::
  "int \<Rightarrow> int \<Rightarrow> int \<Rightarrow> int \<Rightarrow> ('d, 'z) row_scheme list \<Rightarrow> ('d, 'z) row_scheme list" where
  "iterrows_loop w last_minima_idx last_maxima_idx idx [] = []"
| "iterrows_loop w last_minima_idx last_maxima_idx idx (r # rows) =
     (if predicted_target r = 0 then
        (if idx - last_minima_idx > w
         then r # iterrows_loop w idx last_maxima_idx (idx + 1) rows
         else r\<lparr>predicted_target := - 1\<rparr> #
              iterrows_loop w last_minima_idx last_maxima_idx (idx + 1) rows)
      else if predicted_target r = 1 then
        (if idx - last_maxima_idx > w
         then r # iterrows_loop w last_minima_idx idx (idx + 1) rows
         else r\<lparr>predicted_target := - 1\<rparr> #
              iterrows_loop w last_minima_idx last_maxima_idx (idx + 1) rows)
      else r # iterrows_loop w last_minima_idx last_maxima_idx (idx + 1) rows)"

definition filter_predictions ::
  "ModelPredictor \<Rightarrow> ('d::linorder, 'z) row_scheme list \<Rightarrow> ('d, 'z) row_scheme list" where
  "filter_predictions self df =
     (let df = sort_values_by_date df;
          last_minima_idx = - window_size self - 1;
          last_maxima_idx = - window_size self - 1
      in iterrows_loop (window_size self) last_minima_idx last_maxima_idx 0 df)"

section \<open>Auxiliary definitions\<close>

text \<open>
  The decisions of the loop for one kind of signal, used in the proofs: \<open>cs\<close> tells for
  each row whether it is a raw candidate of the kind, \<open>last_idx\<close> is the loop variable of
  the kind, and the result tells for each row whether the loop keeps its label. The lemmas
  \<open>loop_minima\<close> and \<open>loop_maxima\<close> relate it to \<open>iterrows_loop\<close>.
\<close>

fun accepted :: "int \<Rightarrow> int \<Rightarrow> int \<Rightarrow> bool list \<Rightarrow> bool list" where
  "accepted w last_idx idx [] = []"
| "accepted w last_idx idx (c # cs) =
     (if c \<and> idx - last_idx > w
      then True # accepted w idx (idx + 1) cs
      else False # accepted w last_idx (idx + 1) cs)"

text \<open>
  Two frames that differ at most in the column \<^verbatim>\<open>predicted_probability\<close>, row by row.
\<close>

definition same_but_probability :: "'d row list \<Rightarrow> 'd row list \<Rightarrow> bool" where
  "same_but_probability df df' =
     list_all2 (\<lambda>r r'. r' = r\<lparr>predicted_probability := predicted_probability r'\<rparr>) df df'"

text \<open>
  Two frames with the same dates whose rows of label \<open>k\<close> are at the same positions.
\<close>

definition same_candidates :: "real \<Rightarrow> 'd row list \<Rightarrow> 'd row list \<Rightarrow> bool" where
  "same_candidates k df df' =
     list_all2 (\<lambda>r r'. date r = date r' \<and> (predicted_target r = k) = (predicted_target r' = k)) df df'"

section \<open>Example inputs\<close>

text \<open>
  Concrete frames and predictors for the evaluated instances below: dates are day
  numbers, there is one indicator column, the scaler is the identity and the classifier
  returns the indicator itself as probability.
\<close>

definition mk_stock :: "nat \<Rightarrow> real \<Rightarrow> nat stock_row" where
  "mk_stock d v = \<lparr> date = d, close = 1, indicators = [''sma'' \<mapsto> v] \<rparr>"

definition mk_row :: "nat \<Rightarrow> real \<Rightarrow> real \<Rightarrow> nat row" where
  "mk_row d target proba =
     \<lparr> date = d, close = 1, indicators = Map.empty,
       predicted_target = target, predicted_probability = proba \<rparr>"

definition predictor_with :: "real \<Rightarrow> real \<Rightarrow> int \<Rightarrow> ModelPredictor" where
  "predictor_with lo hi w =
     ModelPredictor_init hd (\<lambda>X x. x) [''GOOG''] [''sma'']
       \<lparr> params_outputsize = None, params_min_max_order = None,
         params_min_threshold = Some lo, params_max_threshold = Some hi,
         params_window_size = Some w \<rparr>"

section \<open>The signal generator\<close>

lemma length_masked_assign:
  "length (masked_assign cond v y) = min (length cond) (length y)"
  by (simp add: masked_assign_def)

lemma length_y_pred_of: "length (y_pred_of lo hi ps) = length ps"
  by (simp add: y_pred_of_def Let_def length_masked_assign)

lemma y_pred_of_nth:
  assumes "i < length ps"
  shows "y_pred_of lo hi ps ! i =
           (if ps ! i > hi then 1 else if ps ! i < lo then 0 else - 1)"
  using assms by (simp add: y_pred_of_def Let_def masked_assign_def)

lemma evaluate_model_label:
  assumes "r \<in> set (evaluate_model self df)"
  shows "predicted_target r =
           (if predicted_probability r > max_threshold self then 1
            else if predicted_probability r < min_threshold self then 0 else - 1)"
proof -
  define df_clean where "df_clean = dropna (technical_indicators self) df"
  define X0 where "X0 = map (\<lambda>r. map (\<lambda>c. the (indicators r c)) (technical_indicators self)) df_clean"
  define ps where "ps = map (model self) (map (scaler self X0) X0)"
  define ys where "ys = y_pred_of (min_threshold self) (max_threshold self) ps"
  have ev: "evaluate_model self df =
      map (\<lambda>(r, target, proba). with_prediction r target proba) (zip df_clean (zip ys ps))"
    by (simp only: evaluate_model_def Let_def df_clean_def X0_def ps_def ys_def)
  from assms obtain i where i: "i < length (zip df_clean (zip ys ps))"
    and r: "r = (\<lambda>(r, target, proba). with_prediction r target proba) (zip df_clean (zip ys ps) ! i)"
    unfolding ev by (auto simp: in_set_conv_nth)
  have len: "length ys = length ps" by (simp add: ys_def length_y_pred_of)
  from i len have ip: "i < length ps" by simp
  have "predicted_target r = ys ! i" "predicted_probability r = ps ! i"
    using i len by (simp_all add: r with_prediction_def)
  then show ?thesis using y_pred_of_nth[OF ip] by (simp add: ys_def)
qed

section \<open>The loop of the temporal filter\<close>

lemma length_accepted: "length (accepted w l idx cs) = length cs"
  by (induction cs arbitrary: l idx) auto

lemma accepted_candidate:
  "j < length cs \<Longrightarrow> accepted w l idx cs ! j \<Longrightarrow> cs ! j"
  by (induction cs arbitrary: l idx j) (auto simp: nth_Cons' split: if_splits)

lemma accepted_first:
  assumes "j < length cs" "cs ! j" "\<forall>i<j. \<not> accepted w l idx cs ! i"
  shows "accepted w l idx cs ! j = (idx + int j - l > w)"
  using assms
proof (induction cs arbitrary: l idx j)
  case Nil
  then show ?case by simp
next
  case (Cons c cs)
  show ?case
  proof (cases j)
    case 0
    with Cons.prems show ?thesis by simp
  next
    case (Suc j')
    from Cons.prems(3) Suc have head: "\<not> accepted w l idx (c # cs) ! 0" by blast
    then have tl: "accepted w l idx (c # cs) = False # accepted w l (idx + 1) cs"
      by (simp split: if_splits)
    have "\<forall>i<j'. \<not> accepted w l (idx + 1) cs ! i"
    proof (intro allI impI)
      fix i assume "i < j'"
      then have "Suc i < j" using Suc by simp
      with Cons.prems(3) have "\<not> accepted w l idx (c # cs) ! Suc i" by blast
      then show "\<not> accepted w l (idx + 1) cs ! i" unfolding tl by simp
    qed
    moreover from Cons.prems Suc have "j' < length cs" "cs ! j'" by simp_all
    ultimately have "accepted w l (idx + 1) cs ! j' = (idx + 1 + int j' - l > w)"
      by (rule Cons.IH[rotated 2])
    then show ?thesis unfolding tl Suc by (simp add: algebra_simps)
  qed
qed

lemma accepted_next:
  assumes "i < j" "j < length cs" "accepted w l idx cs ! i" "cs ! j"
    "\<forall>m. i < m \<and> m < j \<longrightarrow> \<not> accepted w l idx cs ! m"
  shows "accepted w l idx cs ! j = (int j - int i > w)"
  using assms
proof (induction cs arbitrary: l idx i j)
  case Nil
  then show ?case by simp
next
  case (Cons c cs)
  from Cons.prems(1) obtain j' where j: "j = Suc j'" by (cases j) auto
  show ?case
  proof (cases i)
    case 0
    with Cons.prems(3) have tl: "accepted w l idx (c # cs) = True # accepted w idx (idx + 1) cs"
      by (simp split: if_splits)
    have "\<forall>m<j'. \<not> accepted w idx (idx + 1) cs ! m"
    proof (intro allI impI)
      fix m assume "m < j'"
      then have "i < Suc m \<and> Suc m < j" using 0 j by simp
      with Cons.prems(5) have "\<not> accepted w l idx (c # cs) ! Suc m" by blast
      then show "\<not> accepted w idx (idx + 1) cs ! m" unfolding tl by simp
    qed
    moreover from Cons.prems j have "j' < length cs" "cs ! j'" by simp_all
    ultimately have "accepted w idx (idx + 1) cs ! j' = (idx + 1 + int j' - idx > w)"
      by (rule accepted_first[rotated 2])
    then show ?thesis unfolding tl j 0 by (simp add: algebra_simps)
  next
    case (Suc i')
    define l' where "l' = (if c \<and> idx - l > w then idx else l)"
    have tl: "accepted w l idx (c # cs) = (c \<and> idx - l > w) # accepted w l' (idx + 1) cs"
      by (simp add: l'_def)
    have "\<forall>m. i' < m \<and> m < j' \<longrightarrow> \<not> accepted w l' (idx + 1) cs ! m"
    proof (intro allI impI)
      fix m assume "i' < m \<and> m < j'"
      then have "i < Suc m \<and> Suc m < j" using Suc j by simp
      with Cons.prems(5) have "\<not> accepted w l idx (c # cs) ! Suc m" by blast
      then show "\<not> accepted w l' (idx + 1) cs ! m" unfolding tl by simp
    qed
    moreover from Cons.prems j Suc have "i' < j'" "j' < length cs" "cs ! j'" by simp_all
    moreover from Cons.prems(3) have "accepted w l' (idx + 1) cs ! i'" unfolding tl Suc by simp
    ultimately have "accepted w l' (idx + 1) cs ! j' = (int j' - int i' > w)"
      using Cons.IH by blast
    then show ?thesis unfolding tl j Suc by simp
  qed
qed

lemma accepted_within:
  assumes "i < j" "j < length cs" "accepted w l idx cs ! i" "cs ! j" "int j - int i \<le> w"
  shows "\<not> accepted w l idx cs ! j"
proof -
  define S where "S = {m. m < j \<and> accepted w l idx cs ! m}"
  have fin: "finite S" and ne: "S \<noteq> {}" using assms by (auto simp: S_def)
  define i' where "i' = Max S"
  have "i' \<in> S" unfolding i'_def using fin ne by (rule Max_in)
  then have i'j: "i' < j" and acc: "accepted w l idx cs ! i'" by (auto simp: S_def)
  have "i \<in> S" using assms by (simp add: S_def)
  then have ii': "i \<le> i'" unfolding i'_def using fin by simp
  have "\<forall>m. i' < m \<and> m < j \<longrightarrow> \<not> accepted w l idx cs ! m"
  proof (intro allI impI notI)
    fix m assume m: "i' < m \<and> m < j" and "accepted w l idx cs ! m"
    then have "m \<in> S" by (simp add: S_def)
    then have "m \<le> i'" unfolding i'_def using fin by simp
    with m show False by simp
  qed
  with i'j assms(2) acc assms(4)
  have "accepted w l idx cs ! j = (int j - int i' > w)" by (rule accepted_next)
  with ii' assms(5) show ?thesis by simp
qed

lemma loop_minima:
  "map (\<lambda>r. predicted_target r = 0) (iterrows_loop w a b idx rows) =
     accepted w a idx (map (\<lambda>r. predicted_target r = 0) rows)"
  by (induction rows arbitrary: a b idx) auto

lemma loop_maxima:
  "map (\<lambda>r. predicted_target r = 1) (iterrows_loop w a b idx rows) =
     accepted w b idx (map (\<lambda>r. predicted_target r = 1) rows)"
  by (induction rows arbitrary: a b idx) auto

lemma loop_idem:
  "iterrows_loop w a b idx (iterrows_loop w a b idx rows) = iterrows_loop w a b idx rows"
  by (induction rows arbitrary: a b idx) auto

lemma length_loop: "length (iterrows_loop w a b idx rows) = length rows"
  by (induction rows arbitrary: a b idx) auto

lemma loop_dates: "map date (iterrows_loop w a b idx rows) = map date rows"
  by (induction rows arbitrary: a b idx) auto

lemma loop_frame:
  "i < length rows \<Longrightarrow>
   iterrows_loop w a b idx rows ! i = rows ! i \<or>
   (iterrows_loop w a b idx rows ! i = (rows ! i)\<lparr>predicted_target := - 1\<rparr> \<and>
    (predicted_target (rows ! i) = 0 \<or> predicted_target (rows ! i) = 1))"
  by (induction rows arbitrary: a b idx i) (auto simp: nth_Cons' )

lemma loop_nonpositive_window:
  assumes "w \<le> 0" and "idx - a > w" and "idx - b > w"
  shows "iterrows_loop w a b idx rows = rows"
  using assms by (induction rows arbitrary: a b idx) auto

section \<open>The temporal filter as a whole\<close>

lemma sort_values_by_date_sorted:
  "sorted (map date df) \<Longrightarrow> sort_values_by_date df = df"
  by (simp add: sort_values_by_date_def sort_key_id_if_sorted)

text \<open>
  When the dates are pairwise distinct, the result of sorting by date is fixed by the
  input: every arrangement of the rows that is ascending in the date is the one
  \<open>sort_values_by_date\<close> returns, whatever sorting algorithm produced it.
\<close>

lemma sort_values_by_date_unique:
  assumes "distinct (map date df)"
    and "sorted (map date ys)" and "set ys = set df" and "length ys = length df"
  shows "sort_values_by_date df = ys"
proof -
  let ?zs = "sort_key date df"
  have inj: "inj_on date (set df)" using assms(1) by (simp add: distinct_map)
  have "card (set (map date ys)) = length (map date ys)"
    using assms(1,3,4) distinct_card[of "map date df"] by simp
  then have dys: "distinct (map date ys)" by (rule card_distinct)
  have dzs: "distinct (map date ?zs)" using assms(1) by (simp add: distinct_map)
  have "map date ?zs = map date ys"
    using _ dzs _ dys
  proof (rule sorted_distinct_set_unique)
    show "sorted (map date ?zs)" by simp
    show "sorted (map date ys)" by (rule assms(2))
    show "set (map date ?zs) = set (map date ys)" using assms(3) by simp
  qed
  moreover have "inj_on date (set ?zs \<union> set ys)" using inj assms(3) by simp
  ultimately have "?zs = ys" by (simp add: inj_on_map_eq_map)
  then show ?thesis by (simp add: sort_values_by_date_def)
qed

lemma sort_values_by_date_strict:
  assumes "sorted (map date df)" and "distinct (map date df)"
  shows "sort_values_by_date df = df"
  using assms(2,1) by (rule sort_values_by_date_unique) simp_all

lemma length_sort_values_by_date: "length (sort_values_by_date df) = length df"
  by (simp add: sort_values_by_date_def)

lemma filter_predictions_loop:
  "filter_predictions self df =
     iterrows_loop (window_size self) (- window_size self - 1) (- window_size self - 1) 0
       (sort_values_by_date df)"
  by (simp add: filter_predictions_def Let_def)

lemma length_filter_predictions: "length (filter_predictions self df) = length df"
  by (simp add: filter_predictions_loop length_loop length_sort_values_by_date)

lemma loop_kind:
  assumes "k = 0 \<or> k = 1"
  shows "map (\<lambda>r. predicted_target r = k) (iterrows_loop w a b idx rows) =
           accepted w (if k = 0 then a else b) idx (map (\<lambda>r. predicted_target r = k) rows)"
  using assms loop_minima[of w a b idx rows] loop_maxima[of w a b idx rows] by auto

lemma filter_predictions_kind:
  assumes "k = 0 \<or> k = 1"
  shows "map (\<lambda>r. predicted_target r = k) (filter_predictions self df) =
           accepted (window_size self) (- window_size self - 1) 0
             (map (\<lambda>r. predicted_target r = k) (sort_values_by_date df))"
  by (simp add: filter_predictions_loop loop_kind[OF assms])

lemma filter_predictions_kind_nth:
  assumes "k = 0 \<or> k = 1" "i < length df"
  shows "(predicted_target (filter_predictions self df ! i) = k) =
           accepted (window_size self) (- window_size self - 1) 0
             (map (\<lambda>r. predicted_target r = k) (sort_values_by_date df)) ! i"
proof -
  have "map (\<lambda>r. predicted_target r = k) (filter_predictions self df) ! i =
          (predicted_target (filter_predictions self df ! i) = k)"
    using assms(2) by (simp add: length_filter_predictions)
  then show ?thesis using filter_predictions_kind[OF assms(1), of self df] by simp
qed

lemma filter_predictions_frame:
  assumes "i < length df"
  shows "filter_predictions self df ! i = sort_values_by_date df ! i \<or>
         (filter_predictions self df ! i = (sort_values_by_date df ! i)\<lparr>predicted_target := - 1\<rparr> \<and>
          (predicted_target (sort_values_by_date df ! i) = 0 \<or>
           predicted_target (sort_values_by_date df ! i) = 1))"
  unfolding filter_predictions_loop
  using assms by (intro loop_frame) (simp add: length_sort_values_by_date)

lemma filter_predictions_suppressed:
  assumes "k = 0 \<or> k = 1" "j < length df"
    and "predicted_target (sort_values_by_date df ! j) = k"
    and "predicted_target (filter_predictions self df ! j) \<noteq> k"
  shows "predicted_target (filter_predictions self df ! j) = - 1"
  using filter_predictions_frame[OF assms(2), of self] assms(3,4) by auto

lemma filter_predictions_candidate:
  assumes "k = 0 \<or> k = 1" "j < length df"
    and "predicted_target (filter_predictions self df ! j) = k"
  shows "predicted_target (sort_values_by_date df ! j) = k"
  using filter_predictions_frame[OF assms(2), of self] assms(1,3) by auto

text \<open>The three facts about one accepted row and a later candidate, on the sorted frame.\<close>

lemma suppression_sorted_frame:
  assumes k: "k = 0 \<or> k = 1" and ij: "i < j" and jl: "j < length df"
    and acc: "predicted_target (filter_predictions self df ! i) = k"
    and cand: "predicted_target (sort_values_by_date df ! j) = k"
  shows "int j - int i \<le> window_size self \<Longrightarrow>
           predicted_target (filter_predictions self df ! j) = - 1"
    and "\<forall>m. i < m \<and> m < j \<longrightarrow> predicted_target (filter_predictions self df ! m) \<noteq> k \<Longrightarrow>
           (predicted_target (filter_predictions self df ! j) = k) =
           (int j - int i > window_size self)"
proof -
  define cs where "cs = map (\<lambda>r. predicted_target r = k) (sort_values_by_date df)"
  define A where "A = accepted (window_size self) (- window_size self - 1) 0 cs"
  have nth: "\<And>m. m < length df \<Longrightarrow> (predicted_target (filter_predictions self df ! m) = k) = A ! m"
    unfolding A_def cs_def by (rule filter_predictions_kind_nth[OF k])
  have len: "length cs = length df" by (simp add: cs_def length_sort_values_by_date)
  have jcs: "j < length cs" using jl len by simp
  have Ai: "accepted (window_size self) (- window_size self - 1) 0 cs ! i"
    using nth[of i] acc ij jl by (simp add: A_def)
  have csj: "cs ! j" using cand jl by (simp add: cs_def length_sort_values_by_date)
  {
    assume "int j - int i \<le> window_size self"
    with ij jcs Ai csj have "\<not> A ! j" unfolding A_def by (rule accepted_within)
    then have "predicted_target (filter_predictions self df ! j) \<noteq> k" using nth[OF jl] by simp
    with k jl cand show "predicted_target (filter_predictions self df ! j) = - 1"
      by (rule filter_predictions_suppressed)
  }
  {
    assume "\<forall>m. i < m \<and> m < j \<longrightarrow> predicted_target (filter_predictions self df ! m) \<noteq> k"
    then have "\<forall>m. i < m \<and> m < j \<longrightarrow> \<not> accepted (window_size self) (- window_size self - 1) 0 cs ! m"
      using nth jl unfolding A_def by (metis less_trans)
    with ij jcs Ai csj have "A ! j = (int j - int i > window_size self)"
      unfolding A_def by (rule accepted_next)
    then show "(predicted_target (filter_predictions self df ! j) = k) =
           (int j - int i > window_size self)" using nth[OF jl] by simp
  }
qed

lemma sorted_filter_predictions: "sorted (map date (filter_predictions self df))"
  by (simp add: filter_predictions_loop loop_dates sort_values_by_date_def)

section \<open>Two runs of the filter\<close>

lemma insort_key_rel:
  assumes key: "\<And>a b. R a b \<Longrightarrow> f a = g b"
    and "list_all2 R xs ys" and "R x y"
  shows "list_all2 R (insort_key f x xs) (insort_key g y ys)"
  using assms(2)
proof (induction rule: list_all2_induct)
  case Nil
  then show ?case using assms(3) by simp
next
  case (Cons a xs b ys)
  then show ?case using assms(3) key[OF assms(3)] key[OF Cons.hyps(1)] by simp
qed

lemma sort_key_rel:
  assumes key: "\<And>a b. R a b \<Longrightarrow> f a = g b"
    and "list_all2 R xs ys"
  shows "list_all2 R (sort_key f xs) (sort_key g ys)"
  using assms(2)
proof (induction rule: list_all2_induct)
  case Nil
  then show ?case by simp
next
  case (Cons a xs b ys)
  then show ?case by (simp add: insort_key_rel[OF key])
qed

lemma list_all2_map_eq:
  assumes "list_all2 R xs ys" and "\<And>a b. R a b \<Longrightarrow> f a = g b"
  shows "map f xs = map g ys"
  using assms(1) by (induction rule: list_all2_induct) (simp_all add: assms(2))

lemma loop_same_but_probability:
  assumes "list_all2 (\<lambda>r r'. r' = r\<lparr>predicted_probability := predicted_probability r'\<rparr>) rows rows'"
  shows "list_all2 (\<lambda>r r'. r' = r\<lparr>predicted_probability := predicted_probability r'\<rparr>)
           (iterrows_loop w a b idx rows) (iterrows_loop w a b idx rows')"
  using assms
proof (induction arbitrary: a b idx rule: list_all2_induct)
  case Nil
  then show ?case by simp
next
  case (Cons r rows r' rows')
  from Cons.hyps(1) have t: "predicted_target r' = predicted_target r"
    by (metis row.select_convs(1) row.surjective row.update_convs(2))
  from Cons.hyps(1)
  have u: "r'\<lparr>predicted_target := - 1\<rparr> =
           r\<lparr>predicted_target := - 1\<rparr>\<lparr>predicted_probability :=
              predicted_probability (r'\<lparr>predicted_target := - 1\<rparr>)\<rparr>"
    by (metis row.select_convs(2) row.surjective row.update_convs(1) row.update_convs(2))
  show ?case using Cons.hyps(1) Cons.IH t u by simp
qed

lemma filter_predictions_same_but_probability:
  assumes "same_but_probability df df'"
  shows "map predicted_target (filter_predictions self df') =
         map predicted_target (filter_predictions self df)"
proof -
  let ?R = "\<lambda>r r'. r' = r\<lparr>predicted_probability := predicted_probability r'\<rparr>"
  have key: "\<And>a b. ?R a b \<Longrightarrow> date a = date b"
    by (metis row.surjective row.update_convs(2) stock_row.select_convs(1) ext_inject)
  have "list_all2 ?R df df'" using assms by (simp add: same_but_probability_def)
  then have "list_all2 ?R (sort_values_by_date df) (sort_values_by_date df')"
    unfolding sort_values_by_date_def by (rule sort_key_rel[rotated]) (rule key)
  then have "list_all2 ?R (filter_predictions self df) (filter_predictions self df')"
    unfolding filter_predictions_loop by (rule loop_same_but_probability)
  then have "map predicted_target (filter_predictions self df) =
             map predicted_target (filter_predictions self df')"
  proof (rule list_all2_map_eq)
    fix a b :: "'a row" assume "b = a\<lparr>predicted_probability := predicted_probability b\<rparr>"
    then show "predicted_target a = predicted_target b"
      by (metis row.select_convs(1) row.surjective row.update_convs(2))
  qed
  then show ?thesis by simp
qed

section \<open>Evaluated instances of the definitions\<close>

lemma predictor_with_fields:
  "min_threshold (predictor_with lo hi w) = lo"
  "max_threshold (predictor_with lo hi w) = hi"
  "window_size (predictor_with lo hi w) = w"
  "technical_indicators (predictor_with lo hi w) = [''sma'']"
  "model (predictor_with lo hi w) = hd"
  "scaler (predictor_with lo hi w) = (\<lambda>X x. x)"
  by (simp_all add: predictor_with_def ModelPredictor_init_def get_def)

lemma evaluate_model_single:
  "evaluate_model (predictor_with lo hi w) [mk_stock d v] =
     [with_prediction (mk_stock d v) (if v > hi then 1 else if v < lo then 0 else - 1) v]"
  by (simp add: evaluate_model_def Let_def predictor_with_fields dropna_def mk_stock_def
      y_pred_of_def masked_assign_def)

lemma example_minima:
  "filter_predictions (predictor_with 0.1 0.9 1)
      [mk_row 0 0 0.01, mk_row 1 (- 1) 0.5, mk_row 2 0 0.02, mk_row 3 0 0.03] =
      [mk_row 0 0 0.01, mk_row 1 (- 1) 0.5, mk_row 2 0 0.02, mk_row 3 (- 1) 0.03]"
  by (simp add: filter_predictions_loop sort_values_by_date_def predictor_with_fields mk_row_def)

lemma example_cluster:
  "filter_predictions (predictor_with 0.1 0.9 1)
      [mk_row 0 0 0.05, mk_row 1 (- 1) 0.5, mk_row 2 0 0.04, mk_row 3 0 0.00001] =
      [mk_row 0 0 0.05, mk_row 1 (- 1) 0.5, mk_row 2 0 0.04, mk_row 3 (- 1) 0.00001]"
  by (simp add: filter_predictions_loop sort_values_by_date_def predictor_with_fields mk_row_def)

text \<open>
  Two scenarios on which the model can be compared with a run of the source: five rows with
  thresholds \<open>0.1\<close> and \<open>0.9\<close> and window size \<open>1\<close>, through \<^verbatim>\<open>evaluate_model\<close> and
  \<^verbatim>\<open>filter_predictions\<close>; and window size \<open>0\<close>, where adjacent signals are all kept.
\<close>

lemma spec_scenario_raw:
  "evaluate_model (predictor_with 0.1 0.9 1)
           [mk_stock 0 0.00001, mk_stock 1 0.00002, mk_stock 2 0.5,
            mk_stock 3 0.99999, mk_stock 4 0.99998] =
   [with_prediction (mk_stock 0 0.00001) minimum 0.00001,
    with_prediction (mk_stock 1 0.00002) minimum 0.00002,
    with_prediction (mk_stock 2 0.5) neutral 0.5,
    with_prediction (mk_stock 3 0.99999) maximum 0.99999,
    with_prediction (mk_stock 4 0.99998) maximum 0.99998]"
  by (simp add: evaluate_model_def Let_def predictor_with_fields dropna_def mk_stock_def
      y_pred_of_def masked_assign_def del: not_None_eq)

lemma spec_scenario:
  "map predicted_target
     (filter_predictions (predictor_with 0.1 0.9 1)
        (evaluate_model (predictor_with 0.1 0.9 1)
           [mk_stock 0 0.00001, mk_stock 1 0.00002, mk_stock 2 0.5,
            mk_stock 3 0.99999, mk_stock 4 0.99998])) =
   [minimum, neutral, neutral, maximum, neutral]"
  unfolding spec_scenario_raw
  by (simp add: filter_predictions_loop sort_values_by_date_def predictor_with_fields
      with_prediction_def mk_stock_def)

lemma window_zero_scenario:
  "map predicted_target
     (filter_predictions (predictor_with 0.1 0.9 0)
        [mk_row 0 0 0.01, mk_row 1 0 0.02, mk_row 2 1 0.95, mk_row 3 1 0.96]) =
   [minimum, minimum, maximum, maximum]"
  by (simp add: filter_predictions_loop sort_values_by_date_def predictor_with_fields mk_row_def)

section \<open>Properties of the signal generator\<close>





section \<open>Properties of the temporal filter\<close>

text \<open>
  Claim C1 (spacing invariant). In the output of \<^verbatim>\<open>filter_predictions\<close>, whenever two
  rows at indices \<open>i < j\<close> carry the same non-neutral label \<open>k\<close> and no row between them
  carries \<open>k\<close>, the gap \<open>j - i\<close> is strictly greater than \<open>window_size\<close>. This holds for
  every input frame and every window size, positive or not.
\<close>

theorem spacing_invariant:
  assumes "k = minimum \<or> k = maximum"
    and "i < j" and "j < length (filter_predictions self df)"
    and "predicted_target (filter_predictions self df ! i) = k"
    and "predicted_target (filter_predictions self df ! j) = k"
    and "\<forall>m. i < m \<and> m < j \<longrightarrow> predicted_target (filter_predictions self df ! m) \<noteq> k"
  shows "int j - int i > window_size self"
proof -
  define cs where "cs = map (\<lambda>r. predicted_target r = k) (sort_values_by_date df)"
  define A where "A = accepted (window_size self) (- window_size self - 1) 0 cs"
  have jl: "j < length df" using assms(3) by (simp add: length_filter_predictions)
  have nth: "\<And>m. m < length df \<Longrightarrow> (predicted_target (filter_predictions self df ! m) = k) = A ! m"
    unfolding A_def cs_def by (rule filter_predictions_kind_nth[OF assms(1)])
  have len: "length cs = length df" by (simp add: cs_def length_sort_values_by_date)
  have Ai: "A ! i" using nth[of i] assms(2,4) jl by simp
  have Aj: "A ! j" using nth[of j] assms(5) jl by simp
  have csj: "cs ! j" using accepted_candidate[of j cs] Aj jl len unfolding A_def by simp
  have between: "\<forall>m. i < m \<and> m < j \<longrightarrow> \<not> A ! m"
    using assms(6) nth jl by (metis less_trans)
  have "A ! j = (int j - int i > window_size self)"
    unfolding A_def
    by (rule accepted_next[OF assms(2) _ Ai[unfolded A_def] csj between[unfolded A_def]])
       (simp add: len jl)
  with Aj show ?thesis by simp
qed

theorem spacing_invariant_witness:
  "predicted_target (filter_predictions (predictor_with 0.1 0.9 1)
      [mk_row 0 0 0.01, mk_row 1 (- 1) 0.5, mk_row 2 0 0.02, mk_row 3 0 0.03] ! 0) = minimum \<and>
   predicted_target (filter_predictions (predictor_with 0.1 0.9 1)
      [mk_row 0 0 0.01, mk_row 1 (- 1) 0.5, mk_row 2 0 0.02, mk_row 3 0 0.03] ! 2) = minimum \<and>
   predicted_target (filter_predictions (predictor_with 0.1 0.9 1)
      [mk_row 0 0 0.01, mk_row 1 (- 1) 0.5, mk_row 2 0 0.02, mk_row 3 0 0.03] ! 1) \<noteq> minimum \<and>
   int 2 - int 0 > window_size (predictor_with 0.1 0.9 1)"
proof -
  let ?out = "filter_predictions (predictor_with 0.1 0.9 1)
      [mk_row 0 0 0.01, mk_row 1 (- 1) 0.5, mk_row 2 0 0.02, mk_row 3 0 0.03]"
  have h0: "(minimum::real) = minimum \<or> (minimum::real) = maximum" by simp
  have h1: "(0::nat) < 2" by simp
  have h2: "2 < length ?out" by (simp add: length_filter_predictions)
  have h3: "predicted_target (?out ! 0) = minimum" unfolding example_minima by (simp add: mk_row_def)
  have h4: "predicted_target (?out ! 2) = minimum" unfolding example_minima by (simp add: mk_row_def)
  have h5': "predicted_target (?out ! 1) \<noteq> minimum" unfolding example_minima by (simp add: mk_row_def)
  have h5: "\<forall>m. 0 < m \<and> m < 2 \<longrightarrow> predicted_target (?out ! m) \<noteq> minimum"
  proof (intro allI impI)
    fix m :: nat assume "0 < m \<and> m < 2"
    then have "m = 1" by simp
    with h5' show "predicted_target (?out ! m) \<noteq> minimum" by simp
  qed
  from spacing_invariant[OF h0 h1 h2 h3 h4 h5] h3 h4 h5' show ?thesis by simp
qed

text \<open>
  Claim C3 (boundary of the spacing check), as the claim is worded: a row accepted at
  index \<open>i\<close> and a later raw candidate of the same kind at index \<open>j\<close>, suppressed exactly
  when \<open>j - i \<le> window_size\<close>. The loop compares \<open>j\<close> with the most recently accepted
  index of the kind, not with every accepted index. In the frame below, with window size
  \<open>1\<close>, the minimum at index \<open>0\<close> is accepted and the raw minimum at index \<open>3\<close> is
  suppressed (because of the accepted minimum at index \<open>2\<close>), although \<open>3 - 0 > 1\<close>.
\<close>

theorem suppression_any_accepted_counterexample:
  "sorted (map date [mk_row 0 0 0.01, mk_row 1 (- 1) 0.5, mk_row 2 0 0.02, mk_row 3 0 0.03]) \<and>
   predicted_target (filter_predictions (predictor_with 0.1 0.9 1)
      [mk_row 0 0 0.01, mk_row 1 (- 1) 0.5, mk_row 2 0 0.02, mk_row 3 0 0.03] ! 0) = minimum \<and>
   predicted_target ([mk_row 0 0 0.01, mk_row 1 (- 1) 0.5, mk_row 2 0 0.02, mk_row 3 0 0.03] ! 3) = minimum \<and>
   predicted_target (filter_predictions (predictor_with 0.1 0.9 1)
      [mk_row 0 0 0.01, mk_row 1 (- 1) 0.5, mk_row 2 0 0.02, mk_row 3 0 0.03] ! 3) = neutral \<and>
   \<not> int 3 - int 0 \<le> window_size (predictor_with 0.1 0.9 1)"
  unfolding example_minima by (simp add: mk_row_def predictor_with_fields)

text \<open>
  Claim C3, amended. For a date-sorted input with pairwise distinct dates, a row of kind
  \<open>k\<close> accepted at index \<open>i\<close> and a later raw candidate of kind \<open>k\<close> at index \<open>j\<close>:
  \<^item> if \<open>j - i \<le> window_size\<close>, the candidate is downgraded to neutral;
  \<^item> if \<open>j - i = window_size + 1\<close>, the candidate is accepted;
  \<^item> if no row of kind \<open>k\<close> is accepted strictly between \<open>i\<close> and \<open>j\<close>, the candidate is
    downgraded exactly when \<open>j - i \<le> window_size\<close> and accepted exactly when
    \<open>j - i > window_size\<close>.
\<close>

theorem suppression_boundary:
  assumes "sorted (map date df)" and "distinct (map date df)"
    and "k = minimum \<or> k = maximum"
    and "i < j" and "j < length df"
    and "predicted_target (filter_predictions self df ! i) = k"
    and "predicted_target (df ! j) = k"
  shows "(int j - int i \<le> window_size self \<longrightarrow>
            predicted_target (filter_predictions self df ! j) = neutral) \<and>
         (int j - int i = window_size self + 1 \<longrightarrow>
            predicted_target (filter_predictions self df ! j) = k) \<and>
         ((\<forall>m. i < m \<and> m < j \<longrightarrow> predicted_target (filter_predictions self df ! m) \<noteq> k) \<longrightarrow>
            (predicted_target (filter_predictions self df ! j) = neutral \<longleftrightarrow>
               int j - int i \<le> window_size self) \<and>
            (predicted_target (filter_predictions self df ! j) = k \<longleftrightarrow>
               int j - int i > window_size self))"
proof -
  let ?out = "filter_predictions self df"
  have sdf: "sort_values_by_date df = df" using assms(1,2) by (rule sort_values_by_date_strict)
  have cand: "predicted_target (sort_values_by_date df ! j) = k" using assms(7) sdf by simp
  note near = suppression_sorted_frame(1)[OF assms(3,4,5,6) cand]
  note latest = suppression_sorted_frame(2)[OF assms(3,4,5,6) cand]
  have kne: "k \<noteq> - 1" using assms(3) by auto
  have sup: "predicted_target (?out ! j) \<noteq> k \<Longrightarrow> predicted_target (?out ! j) = - 1"
    using filter_predictions_suppressed[OF assms(3,5) cand] by simp
  have part3: "(predicted_target (?out ! j) = - 1 \<longleftrightarrow> int j - int i \<le> window_size self) \<and>
               (predicted_target (?out ! j) = k \<longleftrightarrow> int j - int i > window_size self)"
    if b: "\<forall>m. i < m \<and> m < j \<longrightarrow> predicted_target (?out ! m) \<noteq> k"
    using latest[OF b] sup kne by auto
  have part2: "predicted_target (?out ! j) = k" if g: "int j - int i = window_size self + 1"
  proof -
    have "\<forall>m. i < m \<and> m < j \<longrightarrow> predicted_target (?out ! m) \<noteq> k"
    proof (intro allI impI notI)
      fix m assume m: "i < m \<and> m < j" and km: "predicted_target (?out ! m) = k"
      from m assms(5) have ml: "m < length df" by simp
      have cm: "predicted_target (sort_values_by_date df ! m) = k"
        using assms(3) ml km by (rule filter_predictions_candidate)
      have "int m - int i \<le> window_size self" using m g by simp
      with suppression_sorted_frame(1)[OF assms(3) _ ml assms(6) cm] m
      have "predicted_target (?out ! m) = - 1" by simp
      with km kne show False by simp
    qed
    from latest[OF this] g show ?thesis by simp
  qed
  from near part2 part3 show ?thesis by blast
qed

theorem suppression_boundary_witness:
  "sorted (map date [mk_row 0 0 0.01, mk_row 1 (- 1) 0.5, mk_row 2 0 0.02, mk_row 3 0 0.03]) \<and>
   distinct (map date [mk_row 0 0 0.01, mk_row 1 (- 1) 0.5, mk_row 2 0 0.02, mk_row 3 0 0.03]) \<and>
   predicted_target (filter_predictions (predictor_with 0.1 0.9 1)
      [mk_row 0 0 0.01, mk_row 1 (- 1) 0.5, mk_row 2 0 0.02, mk_row 3 0 0.03] ! 0) = minimum \<and>
   predicted_target (filter_predictions (predictor_with 0.1 0.9 1)
      [mk_row 0 0 0.01, mk_row 1 (- 1) 0.5, mk_row 2 0 0.02, mk_row 3 0 0.03] ! 1) \<noteq> minimum \<and>
   predicted_target ([mk_row 0 0 0.01, mk_row 1 (- 1) 0.5, mk_row 2 0 0.02, mk_row 3 0 0.03] ! 2) = minimum \<and>
   int 2 - int 0 = window_size (predictor_with 0.1 0.9 1) + 1 \<and>
   predicted_target (filter_predictions (predictor_with 0.1 0.9 1)
      [mk_row 0 0 0.01, mk_row 1 (- 1) 0.5, mk_row 2 0 0.02, mk_row 3 0 0.03] ! 2) = minimum \<and>
   predicted_target ([mk_row 0 0 0.01, mk_row 1 (- 1) 0.5, mk_row 2 0 0.02, mk_row 3 0 0.03] ! 3) = minimum \<and>
   int 3 - int 2 \<le> window_size (predictor_with 0.1 0.9 1) \<and>
   predicted_target (filter_predictions (predictor_with 0.1 0.9 1)
      [mk_row 0 0 0.01, mk_row 1 (- 1) 0.5, mk_row 2 0 0.02, mk_row 3 0 0.03] ! 3) = neutral"
proof -
  let ?df = "[mk_row 0 0 0.01, mk_row 1 (- 1) 0.5, mk_row 2 0 0.02, mk_row 3 0 0.03]"
  let ?self = "predictor_with 0.1 0.9 1"
  let ?out = "filter_predictions ?self ?df"
  have s: "sorted (map date ?df)" by (simp add: mk_row_def)
  have d: "distinct (map date ?df)" by (simp add: mk_row_def)
  have k: "(minimum::real) = minimum \<or> (minimum::real) = maximum" by simp
  have a0: "predicted_target (?out ! 0) = minimum" unfolding example_minima by (simp add: mk_row_def)
  have n1: "predicted_target (?out ! 1) \<noteq> minimum" unfolding example_minima by (simp add: mk_row_def)
  have c2: "predicted_target (?df ! 2) = minimum" by (simp add: mk_row_def)
  have c3: "predicted_target (?df ! 3) = minimum" by (simp add: mk_row_def)
  have g02: "int 2 - int 0 = window_size ?self + 1" by (simp add: predictor_with_fields)
  have g23: "int 3 - int 2 \<le> window_size ?self" by (simp add: predictor_with_fields)
  have b02: "\<forall>m. 0 < m \<and> m < 2 \<longrightarrow> predicted_target (?out ! m) \<noteq> minimum"
  proof (intro allI impI)
    fix m :: nat assume "0 < m \<and> m < 2"
    then have "m = 1" by simp
    with n1 show "predicted_target (?out ! m) \<noteq> minimum" by simp
  qed
  have b23: "\<forall>m. 2 < m \<and> m < 3 \<longrightarrow> predicted_target (?out ! m) \<noteq> minimum" by simp
  have l2: "(2::nat) < length ?df" and l3: "(3::nat) < length ?df" by simp_all
  have a2: "predicted_target (?out ! 2) = minimum"
    using suppression_boundary[OF s d k _ l2 a0 c2] g02 by simp
  have "predicted_target (?out ! 3) = neutral"
    using suppression_boundary[OF s d k _ l3 a2 c3] g23 b23 by simp
  with s d a0 n1 c2 g02 a2 c3 g23 show ?thesis by blast
qed

text \<open>
  Claim C8 (the sentinel). Both loop variables start at \<open>- window_size - 1\<close>, so the first
  raw candidate of each kind is accepted wherever it stands: if row \<open>c\<close> of the frame in
  date order, the order in which the filter visits the rows, has kind \<open>k\<close> and no earlier
  row has, the filter returns row \<open>c\<close> unchanged. This holds for every input and every
  window size; for a date-sorted input with pairwise distinct dates the frame in date order
  is the input itself (\<open>sort_values_by_date_strict\<close>).
\<close>

theorem first_candidate_accepted:
  assumes "k = minimum \<or> k = maximum"
    and "c < length df"
    and "predicted_target (sort_values_by_date df ! c) = k"
    and "\<forall>i<c. predicted_target (sort_values_by_date df ! i) \<noteq> k"
  shows "filter_predictions self df ! c = sort_values_by_date df ! c"
proof -
  define w where "w = window_size self"
  define cs where "cs = map (\<lambda>r. predicted_target r = k) (sort_values_by_date df)"
  have len: "length cs = length df" by (simp add: cs_def length_sort_values_by_date)
  have cl: "c < length cs" using assms(2) len by simp
  have csc: "cs ! c" using assms(2,3) by (simp add: cs_def length_sort_values_by_date)
  have none: "\<forall>i<c. \<not> accepted w (- w - 1) 0 cs ! i"
  proof (intro allI impI notI)
    fix i assume i: "i < c" and a: "accepted w (- w - 1) 0 cs ! i"
    from i cl have "i < length cs" by simp
    then have "cs ! i" using a by (rule accepted_candidate)
    with i assms(2,4) show False by (simp add: cs_def length_sort_values_by_date)
  qed
  have "accepted w (- w - 1) 0 cs ! c = (0 + int c - (- w - 1) > w)"
    using cl csc none by (rule accepted_first)
  then have "accepted w (- w - 1) 0 cs ! c" by simp
  then have "predicted_target (filter_predictions self df ! c) = k"
    using filter_predictions_kind_nth[OF assms(1,2), of self] by (simp add: w_def cs_def)
  moreover have "k \<noteq> - 1" using assms(1) by auto
  ultimately show ?thesis using filter_predictions_frame[OF assms(2), of self] by auto
qed

theorem first_candidate_accepted_witness:
  "predicted_target (sort_values_by_date
      [mk_row 0 (- 1) 0.5, mk_row 1 1 0.95, mk_row 2 0 0.02, mk_row 3 0 0.03] ! 2) = minimum \<and>
   predicted_target (sort_values_by_date
      [mk_row 0 (- 1) 0.5, mk_row 1 1 0.95, mk_row 2 0 0.02, mk_row 3 0 0.03] ! 0) \<noteq> minimum \<and>
   predicted_target (sort_values_by_date
      [mk_row 0 (- 1) 0.5, mk_row 1 1 0.95, mk_row 2 0 0.02, mk_row 3 0 0.03] ! 1) \<noteq> minimum \<and>
   filter_predictions (predictor_with 0.1 0.9 5)
      [mk_row 0 (- 1) 0.5, mk_row 1 1 0.95, mk_row 2 0 0.02, mk_row 3 0 0.03] ! 2 = mk_row 2 0 0.02"
proof -
  let ?df = "[mk_row 0 (- 1) 0.5, mk_row 1 1 0.95, mk_row 2 0 0.02, mk_row 3 0 0.03]"
  have sdf: "sort_values_by_date ?df = ?df"
    by (rule sort_values_by_date_sorted) (simp add: mk_row_def)
  have k: "(minimum::real) = minimum \<or> (minimum::real) = maximum" by simp
  have l: "(2::nat) < length ?df" by simp
  have c: "predicted_target (sort_values_by_date ?df ! 2) = minimum"
    unfolding sdf by (simp add: mk_row_def)
  have n0: "predicted_target (sort_values_by_date ?df ! 0) \<noteq> minimum"
    unfolding sdf by (simp add: mk_row_def)
  have n1: "predicted_target (sort_values_by_date ?df ! 1) \<noteq> minimum"
    unfolding sdf by (simp add: mk_row_def)
  have b: "\<forall>i<2. predicted_target (sort_values_by_date ?df ! i) \<noteq> minimum"
  proof (intro allI impI)
    fix i :: nat assume "i < 2"
    then have "i = 0 \<or> i = 1" by auto
    with n0 n1 show "predicted_target (sort_values_by_date ?df ! i) \<noteq> minimum" by auto
  qed
  have "filter_predictions (predictor_with 0.1 0.9 5) ?df ! 2 = sort_values_by_date ?df ! 2"
    using k l c b by (rule first_candidate_accepted)
  then have "filter_predictions (predictor_with 0.1 0.9 5) ?df ! 2 = mk_row 2 0 0.02"
    unfolding sdf by simp
  with c n0 n1 show ?thesis by blast
qed

text \<open>
  Claim C9 (frame condition). For a date-sorted input with pairwise distinct dates (the
  rows are unique per date) the output has as many rows as the input; row \<open>i\<close> of the output is row \<open>i\<close> of the input except for its
  \<^verbatim>\<open>predicted_target\<close>, so date, close, indicators and predicted probability are
  unchanged and the order is kept; and where the label differs, the input label was minimum
  or maximum and the output label is neutral.
\<close>

theorem frame_condition:
  assumes "sorted (map date df)" and "distinct (map date df)" and "i < length df"
  shows "length (filter_predictions self df) = length df \<and>
         filter_predictions self df ! i =
           (df ! i)\<lparr>predicted_target := predicted_target (filter_predictions self df ! i)\<rparr> \<and>
         (predicted_target (filter_predictions self df ! i) \<noteq> predicted_target (df ! i) \<longrightarrow>
            (predicted_target (df ! i) = minimum \<or> predicted_target (df ! i) = maximum) \<and>
            predicted_target (filter_predictions self df ! i) = neutral)"
proof -
  have sdf: "sort_values_by_date df = df" using assms(1,2) by (rule sort_values_by_date_strict)
  from filter_predictions_frame[OF assms(3), of self] sdf
  have "filter_predictions self df ! i = df ! i \<or>
        (filter_predictions self df ! i = (df ! i)\<lparr>predicted_target := - 1\<rparr> \<and>
         (predicted_target (df ! i) = 0 \<or> predicted_target (df ! i) = 1))" by simp
  then show ?thesis by (auto simp: length_filter_predictions)
qed

theorem frame_condition_witness:
  "sorted (map date [mk_row 0 0 0.01, mk_row 1 (- 1) 0.5, mk_row 2 0 0.02, mk_row 3 0 0.03]) \<and>
   distinct (map date [mk_row 0 0 0.01, mk_row 1 (- 1) 0.5, mk_row 2 0 0.02, mk_row 3 0 0.03]) \<and>
   predicted_target (filter_predictions (predictor_with 0.1 0.9 1)
      [mk_row 0 0 0.01, mk_row 1 (- 1) 0.5, mk_row 2 0 0.02, mk_row 3 0 0.03] ! 3) \<noteq>
   predicted_target ([mk_row 0 0 0.01, mk_row 1 (- 1) 0.5, mk_row 2 0 0.02, mk_row 3 0 0.03] ! 3) \<and>
   predicted_target ([mk_row 0 0 0.01, mk_row 1 (- 1) 0.5, mk_row 2 0 0.02, mk_row 3 0 0.03] ! 3) = minimum \<and>
   filter_predictions (predictor_with 0.1 0.9 1)
      [mk_row 0 0 0.01, mk_row 1 (- 1) 0.5, mk_row 2 0 0.02, mk_row 3 0 0.03] ! 3 =
     ([mk_row 0 0 0.01, mk_row 1 (- 1) 0.5, mk_row 2 0 0.02, mk_row 3 0 0.03] ! 3)
       \<lparr>predicted_target := neutral\<rparr>"
proof -
  let ?df = "[mk_row 0 0 0.01, mk_row 1 (- 1) 0.5, mk_row 2 0 0.02, mk_row 3 0 0.03]"
  let ?out = "filter_predictions (predictor_with 0.1 0.9 1) ?df"
  have s: "sorted (map date ?df)" by (simp add: mk_row_def)
  have d: "distinct (map date ?df)" by (simp add: mk_row_def)
  have l: "(3::nat) < length ?df" by simp
  have ne: "predicted_target (?out ! 3) \<noteq> predicted_target (?df ! 3)"
    unfolding example_minima by (simp add: mk_row_def)
  have c: "predicted_target (?df ! 3) = minimum" by (simp add: mk_row_def)
  from frame_condition[OF s d l, of "predictor_with 0.1 0.9 1"] ne
  have "?out ! 3 = (?df ! 3)\<lparr>predicted_target := predicted_target (?out ! 3)\<rparr>"
    and "predicted_target (?out ! 3) = neutral" by blast+
  then have "?out ! 3 = (?df ! 3)\<lparr>predicted_target := neutral\<rparr>" by simp
  with s d ne c show ?thesis by blast
qed

text \<open>
  Claim C5 (idempotence). Applying \<^verbatim>\<open>filter_predictions\<close> to its own output, with the
  same predictor and hence the same window size, returns that output unchanged. This holds
  for every input frame with pairwise distinct dates (the rows are unique per date),
  sorted or not, and every window size.
\<close>

theorem filter_predictions_idempotent:
  assumes "distinct (map date df)"
  shows "filter_predictions self (filter_predictions self df) = filter_predictions self df"
proof -
  have dates: "map date (filter_predictions self df) = map date (sort_key date df)"
    by (simp add: filter_predictions_loop loop_dates sort_values_by_date_def)
  have "distinct (map date (sort_key date df))"
    using assms by (simp add: distinct_map)
  with dates have d: "distinct (map date (filter_predictions self df))" by simp
  have "sort_values_by_date (filter_predictions self df) = filter_predictions self df"
    using sorted_filter_predictions d by (rule sort_values_by_date_strict)
  then have "filter_predictions self (filter_predictions self df) =
      iterrows_loop (window_size self) (- window_size self - 1) (- window_size self - 1) 0
        (filter_predictions self df)"
    by (simp add: filter_predictions_loop[of self "filter_predictions self df"])
  also have "\<dots> = filter_predictions self df"
    unfolding filter_predictions_loop[of self df] by (rule loop_idem)
  finally show ?thesis .
qed

theorem filter_predictions_idempotent_witness:
  "distinct (map date [mk_row 2 0 0.02, mk_row 0 0 0.01, mk_row 1 0 0.03]) \<and>
   filter_predictions (predictor_with 0.1 0.9 1)
     (filter_predictions (predictor_with 0.1 0.9 1)
        [mk_row 2 0 0.02, mk_row 0 0 0.01, mk_row 1 0 0.03]) =
   filter_predictions (predictor_with 0.1 0.9 1)
     [mk_row 2 0 0.02, mk_row 0 0 0.01, mk_row 1 0 0.03] \<and>
   filter_predictions (predictor_with 0.1 0.9 1)
     [mk_row 2 0 0.02, mk_row 0 0 0.01, mk_row 1 0 0.03] =
   [mk_row 0 0 0.01, mk_row 1 (- 1) 0.03, mk_row 2 0 0.02]"
proof -
  let ?df = "[mk_row 2 0 0.02, mk_row 0 0 0.01, mk_row 1 0 0.03]"
  have d: "distinct (map date ?df)" by (simp add: mk_row_def)
  have out: "filter_predictions (predictor_with 0.1 0.9 1) ?df =
      [mk_row 0 0 0.01, mk_row 1 (- 1) 0.03, mk_row 2 0 0.02]"
    by (simp add: filter_predictions_loop sort_values_by_date_def predictor_with_fields
        mk_row_def)
  from filter_predictions_idempotent[OF d, of "predictor_with 0.1 0.9 1"] d out
  show ?thesis by blast
qed

text \<open>
  Claim C4 (first wins). A cluster is read as follows: a raw candidate \<open>c\<close> of kind \<open>k\<close>
  that lies more than \<open>window_size\<close> rows after every earlier accepted row of kind \<open>k\<close>,
  together with the later raw candidates of kind \<open>k\<close> within \<open>window_size\<close> rows of \<open>c\<close>.
  For a date-sorted input with pairwise distinct dates the filter accepts \<open>c\<close>, the first
  candidate of the cluster, and downgrades every other candidate of the cluster to neutral. The labels of the output
  are the same for every frame that differs from the input in the column
  \<^verbatim>\<open>predicted_probability\<close> only.
\<close>

theorem first_wins:
  assumes "sorted (map date df)" and "distinct (map date df)"
    and "k = minimum \<or> k = maximum"
    and "c < length df"
    and "predicted_target (df ! c) = k"
    and "\<forall>i<c. predicted_target (filter_predictions self df ! i) = k \<longrightarrow>
                 int c - int i > window_size self"
  shows "predicted_target (filter_predictions self df ! c) = k \<and>
         (\<forall>j. c < j \<and> j < length df \<and> predicted_target (df ! j) = k \<and>
              int j - int c \<le> window_size self \<longrightarrow>
              predicted_target (filter_predictions self df ! j) = neutral) \<and>
         (\<forall>df'. same_but_probability df df' \<longrightarrow>
              map predicted_target (filter_predictions self df') =
              map predicted_target (filter_predictions self df))"
proof -
  let ?out = "filter_predictions self df"
  define w where "w = window_size self"
  have sdf: "sort_values_by_date df = df" using assms(1,2) by (rule sort_values_by_date_strict)
  define cs where "cs = map (\<lambda>r. predicted_target r = k) (sort_values_by_date df)"
  define A where "A = accepted w (- w - 1) 0 cs"
  have nth: "\<And>m. m < length df \<Longrightarrow> (predicted_target (?out ! m) = k) = A ! m"
    unfolding A_def cs_def w_def by (rule filter_predictions_kind_nth[OF assms(3)])
  have len: "length cs = length df" by (simp add: cs_def length_sort_values_by_date)
  have cl: "c < length cs" using assms(4) len by simp
  have csc: "cs ! c" using assms(4,5) sdf by (simp add: cs_def)
  have first: "predicted_target (?out ! c) = k"
  proof (cases "\<exists>i<c. A ! i")
    case False
    then have "\<forall>i<c. \<not> accepted w (- w - 1) 0 cs ! i" by (simp add: A_def)
    with cl csc have "accepted w (- w - 1) 0 cs ! c = (0 + int c - (- w - 1) > w)"
      by (rule accepted_first)
    then have "A ! c" by (simp add: A_def)
    then show ?thesis using nth[OF assms(4)] by simp
  next
    case True
    define S where "S = {i. i < c \<and> A ! i}"
    have fin: "finite S" and ne: "S \<noteq> {}" using True by (auto simp: S_def)
    define i' where "i' = Max S"
    have "i' \<in> S" unfolding i'_def using fin ne by (rule Max_in)
    then have i'c: "i' < c" and acc: "A ! i'" by (auto simp: S_def)
    have between: "\<forall>m. i' < m \<and> m < c \<longrightarrow> \<not> accepted w (- w - 1) 0 cs ! m"
    proof (intro allI impI notI)
      fix m assume m: "i' < m \<and> m < c" and "accepted w (- w - 1) 0 cs ! m"
      then have "m \<in> S" by (simp add: S_def A_def)
      then have "m \<le> i'" unfolding i'_def using fin by simp
      with m show False by simp
    qed
    have "accepted w (- w - 1) 0 cs ! c = (int c - int i' > w)"
      using i'c cl acc[unfolded A_def] csc between by (rule accepted_next)
    moreover have "predicted_target (?out ! i') = k" using nth[of i'] i'c assms(4) acc by simp
    with assms(6) i'c have "int c - int i' > w" by (simp add: w_def)
    ultimately have "A ! c" by (simp add: A_def)
    then show ?thesis using nth[OF assms(4)] by simp
  qed
  have later: "\<forall>j. c < j \<and> j < length df \<and> predicted_target (df ! j) = k \<and>
              int j - int c \<le> window_size self \<longrightarrow> predicted_target (?out ! j) = neutral"
  proof (intro allI impI)
    fix j assume j: "c < j \<and> j < length df \<and> predicted_target (df ! j) = k \<and>
              int j - int c \<le> window_size self"
    then have cand: "predicted_target (sort_values_by_date df ! j) = k" using sdf by simp
    from j have "c < j" "j < length df" "int j - int c \<le> window_size self" by simp_all
    with suppression_sorted_frame(1)[OF assms(3) _ _ first cand]
    show "predicted_target (?out ! j) = neutral" by simp
  qed
  from first later filter_predictions_same_but_probability show ?thesis by blast
qed

theorem first_wins_witness:
  "sorted (map date [mk_row 0 0 0.05, mk_row 1 (- 1) 0.5, mk_row 2 0 0.04, mk_row 3 0 0.00001]) \<and>
   distinct (map date [mk_row 0 0 0.05, mk_row 1 (- 1) 0.5, mk_row 2 0 0.04, mk_row 3 0 0.00001]) \<and>
   predicted_target (filter_predictions (predictor_with 0.1 0.9 1)
      [mk_row 0 0 0.05, mk_row 1 (- 1) 0.5, mk_row 2 0 0.04, mk_row 3 0 0.00001] ! 0) = minimum \<and>
   int 2 - int 0 > window_size (predictor_with 0.1 0.9 1) \<and>
   predicted_target (filter_predictions (predictor_with 0.1 0.9 1)
      [mk_row 0 0 0.05, mk_row 1 (- 1) 0.5, mk_row 2 0 0.04, mk_row 3 0 0.00001] ! 1) \<noteq> minimum \<and>
   predicted_target ([mk_row 0 0 0.05, mk_row 1 (- 1) 0.5, mk_row 2 0 0.04, mk_row 3 0 0.00001] ! 2) = minimum \<and>
   predicted_target (filter_predictions (predictor_with 0.1 0.9 1)
      [mk_row 0 0 0.05, mk_row 1 (- 1) 0.5, mk_row 2 0 0.04, mk_row 3 0 0.00001] ! 2) = minimum \<and>
   predicted_target ([mk_row 0 0 0.05, mk_row 1 (- 1) 0.5, mk_row 2 0 0.04, mk_row 3 0 0.00001] ! 3) = minimum \<and>
   int 3 - int 2 \<le> window_size (predictor_with 0.1 0.9 1) \<and>
   predicted_target (filter_predictions (predictor_with 0.1 0.9 1)
      [mk_row 0 0 0.05, mk_row 1 (- 1) 0.5, mk_row 2 0 0.04, mk_row 3 0 0.00001] ! 3) = neutral \<and>
   same_but_probability
      [mk_row 0 0 0.05, mk_row 1 (- 1) 0.5, mk_row 2 0 0.04, mk_row 3 0 0.00001]
      [mk_row 0 0 0.00001, mk_row 1 (- 1) 0.5, mk_row 2 0 0.09, mk_row 3 0 0.04] \<and>
   map predicted_target (filter_predictions (predictor_with 0.1 0.9 1)
      [mk_row 0 0 0.00001, mk_row 1 (- 1) 0.5, mk_row 2 0 0.09, mk_row 3 0 0.04]) =
   map predicted_target (filter_predictions (predictor_with 0.1 0.9 1)
      [mk_row 0 0 0.05, mk_row 1 (- 1) 0.5, mk_row 2 0 0.04, mk_row 3 0 0.00001])"
proof -
  let ?df = "[mk_row 0 0 0.05, mk_row 1 (- 1) 0.5, mk_row 2 0 0.04, mk_row 3 0 0.00001]"
  let ?df' = "[mk_row 0 0 0.00001, mk_row 1 (- 1) 0.5, mk_row 2 0 0.09, mk_row 3 0 0.04]"
  let ?self = "predictor_with 0.1 0.9 1"
  let ?out = "filter_predictions ?self ?df"
  have s: "sorted (map date ?df)" by (simp add: mk_row_def)
  have d: "distinct (map date ?df)" by (simp add: mk_row_def)
  have k: "(minimum::real) = minimum \<or> (minimum::real) = maximum" by simp
  have l: "(2::nat) < length ?df" by simp
  have a0: "predicted_target (?out ! 0) = minimum" unfolding example_cluster by (simp add: mk_row_def)
  have n1: "predicted_target (?out ! 1) \<noteq> minimum" unfolding example_cluster by (simp add: mk_row_def)
  have g02: "int 2 - int 0 > window_size ?self" by (simp add: predictor_with_fields)
  have c2: "predicted_target (?df ! 2) = minimum" by (simp add: mk_row_def)
  have c3: "predicted_target (?df ! 3) = minimum" by (simp add: mk_row_def)
  have g23: "int 3 - int 2 \<le> window_size ?self" by (simp add: predictor_with_fields)
  have sp: "same_but_probability ?df ?df'" by (simp add: same_but_probability_def mk_row_def)
  have earlier: "\<forall>i<2. predicted_target (?out ! i) = minimum \<longrightarrow> int 2 - int i > window_size ?self"
  proof (intro allI impI)
    fix i :: nat assume "i < 2" and acc: "predicted_target (?out ! i) = minimum"
    then have "i = 0 \<or> i = 1" by auto
    with acc n1 have "i = 0" by auto
    with g02 show "int 2 - int i > window_size ?self" by simp
  qed
  note fw = first_wins[OF s d k l c2 earlier]
  from fw have a2: "predicted_target (?out ! 2) = minimum" by blast
  from fw c3 g23 have s3: "predicted_target (?out ! 3) = neutral" by simp
  from fw sp have ind: "map predicted_target (filter_predictions ?self ?df') =
      map predicted_target ?out" by blast
  from s d a0 g02 n1 c2 a2 c3 g23 s3 sp ind show ?thesis by blast
qed

text \<open>
  Claim C6 (kind independence), as a statement about two runs. If two frames have the same
  dates and the same rows of kind \<open>k\<close> (for instance because the second frame is the first
  with all rows of the other kind replaced by neutral), then the filter keeps the label
  \<open>k\<close> at the same positions in both runs; as the candidates of kind \<open>k\<close> are at the same
  positions too, the same candidates are suppressed. With \<open>k\<close> minimum this says that
  maxima do not affect the decisions on minima, with \<open>k\<close> maximum the converse.
\<close>

theorem kind_independence:
  assumes "k = minimum \<or> k = maximum"
    and "same_candidates k df df'"
  shows "map (\<lambda>r. predicted_target r = k) (filter_predictions self df) =
         map (\<lambda>r. predicted_target r = k) (filter_predictions self df')"
proof -
  let ?R = "\<lambda>r r'. date r = date r' \<and> (predicted_target r = k) = (predicted_target r' = k)"
  have "list_all2 ?R df df'" using assms(2) by (simp add: same_candidates_def)
  then have "list_all2 ?R (sort_values_by_date df) (sort_values_by_date df')"
    unfolding sort_values_by_date_def by (rule sort_key_rel[rotated]) simp
  then have "map (\<lambda>r. predicted_target r = k) (sort_values_by_date df) =
             map (\<lambda>r. predicted_target r = k) (sort_values_by_date df')"
    by (rule list_all2_map_eq) simp
  then show ?thesis by (simp add: filter_predictions_kind[OF assms(1)])
qed

theorem kind_independence_witness:
  "same_candidates minimum
      [mk_row 0 0 0.01, mk_row 1 1 0.95, mk_row 2 1 0.96, mk_row 3 0 0.02]
      [mk_row 0 0 0.01, mk_row 1 (- 1) 0.95, mk_row 2 (- 1) 0.96, mk_row 3 0 0.02] \<and>
   map (\<lambda>r. predicted_target r = minimum) (filter_predictions (predictor_with 0.1 0.9 1)
      [mk_row 0 0 0.01, mk_row 1 1 0.95, mk_row 2 1 0.96, mk_row 3 0 0.02]) =
   map (\<lambda>r. predicted_target r = minimum) (filter_predictions (predictor_with 0.1 0.9 1)
      [mk_row 0 0 0.01, mk_row 1 (- 1) 0.95, mk_row 2 (- 1) 0.96, mk_row 3 0 0.02])"
proof -
  have k: "(minimum::real) = minimum \<or> (minimum::real) = maximum" by simp
  have sc: "same_candidates minimum
      [mk_row 0 0 0.01, mk_row 1 1 0.95, mk_row 2 1 0.96, mk_row 3 0 0.02]
      [mk_row 0 0 0.01, mk_row 1 (- 1) 0.95, mk_row 2 (- 1) 0.96, mk_row 3 0 0.02]"
    by (simp add: same_candidates_def mk_row_def)
  from kind_independence[OF k sc] sc show ?thesis by blast
qed

section \<open>Validation of configuration and input\<close>

text \<open>
  Claim C7 (eager rejection of invalid configuration and input), as the claim is worded.
  The constructor accepts thresholds that are inverted and outside the unit interval and
  a negative window size; with such a predictor \<^verbatim>\<open>evaluate_model\<close> labels a row whose
  probability is \<open>1.5\<close>, and \<^verbatim>\<open>filter_predictions\<close> returns that row. No error is raised
  and data is returned.
\<close>

theorem no_validation_counterexample:
  "min_threshold (predictor_with 2 (- 1) (- 3)) > max_threshold (predictor_with 2 (- 1) (- 3)) \<and>
   min_threshold (predictor_with 2 (- 1) (- 3)) > 1 \<and>
   max_threshold (predictor_with 2 (- 1) (- 3)) < 0 \<and>
   window_size (predictor_with 2 (- 1) (- 3)) \<le> 0 \<and>
   evaluate_model (predictor_with 2 (- 1) (- 3)) [mk_stock 0 1.5] =
     [with_prediction (mk_stock 0 1.5) maximum 1.5] \<and>
   predicted_probability (with_prediction (mk_stock 0 1.5) maximum 1.5) > 1 \<and>
   filter_predictions (predictor_with 2 (- 1) (- 3)) [with_prediction (mk_stock 0 1.5) maximum 1.5] =
     [with_prediction (mk_stock 0 1.5) maximum 1.5]"
  by (simp add: predictor_with_fields evaluate_model_single with_prediction_def
      filter_predictions_loop sort_values_by_date_def)

text \<open>
  Claim C7, amended. The pipeline has no validation. The constructor takes the thresholds
  and the window size from \<^verbatim>\<open>params\<close> (defaults \<open>0.00001\<close>, \<open>0.99999\<close> and \<open>5\<close>) without
  a check, and they are used as they are:
  \<^item> every row that \<^verbatim>\<open>evaluate_model\<close> returns is labelled by the two strict
    comparisons of its probability with these thresholds, maximum when it is above
    \<open>max_threshold\<close>, else minimum when it is below \<open>min_threshold\<close>, else neutral,
    whatever the thresholds and the probability are, inverted or outside the unit interval
    included;
  \<^item> with a window size that is not positive, \<^verbatim>\<open>filter_predictions\<close> returns the rows
    of a frame with pairwise distinct dates in date order with every label kept.
\<close>

theorem no_validation:
  "(r \<in> set (evaluate_model
               (ModelPredictor_init model0 scaler0 symbols indicator_names ps) df) \<longrightarrow>
      predicted_target r =
        (if predicted_probability r > get (params_max_threshold ps) 0.99999 then maximum
         else if predicted_probability r < get (params_min_threshold ps) 0.00001 then minimum
         else neutral)) \<and>
   (get (params_window_size ps) 5 \<le> 0 \<and> distinct (map date rows) \<longrightarrow>
      filter_predictions (ModelPredictor_init model0 scaler0 symbols indicator_names ps) rows =
      sort_values_by_date rows)"
proof -
  let ?self = "ModelPredictor_init model0 scaler0 symbols indicator_names ps"
  have lo: "min_threshold ?self = get (params_min_threshold ps) 0.00001"
    and hi: "max_threshold ?self = get (params_max_threshold ps) 0.99999"
    and w: "window_size ?self = get (params_window_size ps) 5"
    by (simp_all add: ModelPredictor_init_def)
  have label: "predicted_target r =
        (if predicted_probability r > get (params_max_threshold ps) 0.99999 then maximum
         else if predicted_probability r < get (params_min_threshold ps) 0.00001 then minimum
         else neutral)"
    if "r \<in> set (evaluate_model ?self df)"
    using evaluate_model_label[OF that] lo hi by simp
  have keep: "filter_predictions ?self rows = sort_values_by_date rows"
    if "get (params_window_size ps) 5 \<le> 0"
  proof -
    from that w have nonpos: "window_size ?self \<le> 0" by simp
    have sentinel: "0 - (- window_size ?self - 1) > window_size ?self" by linarith
    from nonpos sentinel sentinel
    have "iterrows_loop (window_size ?self) (- window_size ?self - 1)
        (- window_size ?self - 1) 0 (sort_values_by_date rows) = sort_values_by_date rows"
      by (rule loop_nonpositive_window)
    then show ?thesis by (simp add: filter_predictions_loop)
  qed
  from label keep show ?thesis by blast
qed

theorem no_validation_witness:
  "with_prediction (mk_stock 0 1.5) maximum 1.5
     \<in> set (evaluate_model (predictor_with 2 (- 1) (- 3)) [mk_stock 0 1.5]) \<and>
   predicted_probability (with_prediction (mk_stock 0 1.5) maximum 1.5) > 1 \<and>
   predicted_target (with_prediction (mk_stock 0 1.5) maximum 1.5) = maximum \<and>
   window_size (predictor_with 2 (- 1) (- 3)) \<le> 0 \<and>
   distinct (map date [with_prediction (mk_stock 0 1.5) maximum 1.5]) \<and>
   filter_predictions (predictor_with 2 (- 1) (- 3))
     [with_prediction (mk_stock 0 1.5) maximum 1.5] =
   sort_values_by_date [with_prediction (mk_stock 0 1.5) maximum 1.5]"
proof -
  let ?ps = "\<lparr> params_outputsize = None, params_min_max_order = None,
               params_min_threshold = Some 2, params_max_threshold = Some (- 1),
               params_window_size = Some (- 3) \<rparr>"
  let ?r = "with_prediction (mk_stock 0 1.5) maximum 1.5"
  have self: "predictor_with 2 (- 1) (- 3) =
      ModelPredictor_init hd (\<lambda>X x. x) [''GOOG''] [''sma''] ?ps"
    by (simp add: predictor_with_def)
  have mem: "?r \<in> set (evaluate_model (predictor_with 2 (- 1) (- 3)) [mk_stock 0 1.5])"
    by (simp add: evaluate_model_single)
  have wle: "get (params_window_size ?ps) 5 \<le> 0" by (simp add: get_def)
  have p: "predicted_probability ?r > 1" by (simp add: with_prediction_def)
  have wz: "window_size (predictor_with 2 (- 1) (- 3)) \<le> 0" by (simp add: predictor_with_fields)
  note nv = no_validation[of ?r hd "\<lambda>X x. x" "[''GOOG'']" "[''sma'']" ?ps
      "[mk_stock 0 1.5]" "[?r]", folded self]
  from nv mem have "predicted_target ?r =
      (if predicted_probability ?r > get (params_max_threshold ?ps) 0.99999 then maximum
       else if predicted_probability ?r < get (params_min_threshold ?ps) 0.00001 then minimum
       else neutral)" by blast
  then have t: "predicted_target ?r = maximum" by (simp add: get_def with_prediction_def)
  have d: "distinct (map date [?r])" by simp
  from nv wle d have f: "filter_predictions (predictor_with 2 (- 1) (- 3)) [?r] =
      sort_values_by_date [?r]" by blast
  from mem p t wz d f show ?thesis by blast
qed

end
